theory Spec2Isabelle
  imports Complex_Main "HOL-Library.Sublist"
begin

section \<open>Values of the host language\<close>

text \<open>
  A JavaScript number as the handlers meet it. The numeric fields of the stored records are
  finite, so they are rationals (every finite double is one, and the sign of a difference
  of two finite doubles is the sign of their exact difference); \<open>NaN\<close> and the two
  infinities only arise from parsing request text.
\<close>

datatype number = NaN | NegInfinity | Finite rat | Infinity

text \<open>\<open>a >= b\<close> and \<open>a <= b\<close> for a finite \<open>a\<close>; every comparison with \<open>NaN\<close> is false.\<close>

fun num_ge :: "rat \<Rightarrow> number \<Rightarrow> bool" where
  "num_ge a NaN = False"
| "num_ge a NegInfinity = True"
| "num_ge a (Finite b) = (b \<le> a)"
| "num_ge a Infinity = False"

fun num_le :: "rat \<Rightarrow> number \<Rightarrow> bool" where
  "num_le a NaN = False"
| "num_le a NegInfinity = False"
| "num_le a (Finite b) = (a \<le> b)"
| "num_le a Infinity = True"

text \<open>
  A value of a JSON request body field, or of a stored field assigned from one.
  \<open>Undefined\<close> is a key that is absent; an array carries its elements and an object its
  fields, in order.
\<close>

datatype jsval =
    Undefined | Null | Bool bool | Num rat | Str string
  | Arr "jsval list" | Obj "(string \<times> jsval) list"

text \<open>
  JavaScript truthiness: \<open>undefined\<close>, \<open>null\<close>, \<open>false\<close>, \<open>0\<close> and \<open>""\<close> are falsy; every
  array and every object is truthy.
\<close>

fun truthy :: "jsval \<Rightarrow> bool" where
  "truthy Undefined = False"
| "truthy Null = False"
| "truthy (Bool b) = b"
| "truthy (Num n) = (n \<noteq> 0)"
| "truthy (Str s) = (s \<noteq> [])"
| "truthy (Arr xs) = True"
| "truthy (Obj kvs) = True"

fun is_primitive :: "jsval \<Rightarrow> bool" where
  "is_primitive (Arr xs) = False"
| "is_primitive (Obj kvs) = False"
| "is_primitive v = True"

text \<open>
  \<open>stored === given\<close>, for a stored value and a value of the request body being handled.
  Primitive values are compared by value. An array or object is compared by identity,
  and the body parser builds the arrays and objects of each request anew, so one of them
  is identical to nothing that is stored, whatever its contents.
\<close>

definition strict_eq :: "jsval \<Rightarrow> jsval \<Rightarrow> bool" where
  "strict_eq stored given = (is_primitive given \<and> stored = given)"

text \<open>\<open>a || b\<close> on values.\<close>

definition js_or :: "jsval \<Rightarrow> jsval \<Rightarrow> jsval" where
  "js_or a b = (if truthy a then a else b)"

text \<open>
  A query-string parameter is a string when present. \<open>if (p)\<close> on it holds when it is
  present and not empty.
\<close>

definition truthy_param :: "string option \<Rightarrow> bool" where
  "truthy_param p = (case p of None \<Rightarrow> False | Some s \<Rightarrow> s \<noteq> [])"

text \<open>
  The library functions the handlers call on request text. They are parameters of the
  model: \<open>toLowerCase\<close> of \<open>String.prototype\<close>, the global \<open>parseFloat\<close>, the global
  \<open>parseInt\<close> (\<open>None\<close> is \<open>NaN\<close>; a digit string so long that it overflows to an infinity
  is not modelled), \<open>new Date(s).getTime()\<close> (\<open>None\<close> is \<open>NaN\<close>), and the conversion of a
  number to a string inside a template literal.
\<close>

record builtins =
  toLowerCase :: "string \<Rightarrow> string"
  parseFloat :: "string \<Rightarrow> number"
  parseInt :: "string \<Rightarrow> int option"
  getTime :: "string \<Rightarrow> int option"
  numberToString :: "rat \<Rightarrow> string"

text \<open>
  A value inside a template literal. An array is its elements joined by commas, with
  nothing for a \<open>null\<close> or \<open>undefined\<close> element.
\<close>

fun join_comma :: "string list \<Rightarrow> string" where
  "join_comma [] = []"
| "join_comma [s] = s"
| "join_comma (s # t # ts) = s @ '','' @ join_comma (t # ts)"

fun to_string :: "builtins \<Rightarrow> jsval \<Rightarrow> string" where
  "to_string env Undefined = ''undefined''"
| "to_string env Null = ''null''"
| "to_string env (Bool b) = (if b then ''true'' else ''false'')"
| "to_string env (Num n) = numberToString env n"
| "to_string env (Str s) = s"
| "to_string env (Arr xs) =
     join_comma (map (\<lambda>x. if x = Undefined \<or> x = Null then [] else to_string env x) xs)"
| "to_string env (Obj kvs) = ''[object Object]''"

text \<open>
  The two readings of the clock a creating handler makes: \<open>Date.now()\<close> in milliseconds
  and \<open>new Date().toISOString()\<close>.
\<close>

record clock =
  now_ms :: nat
  now_iso :: string

text \<open>A natural number in a template literal: its decimal digits.\<close>

fun decimal_string :: "nat \<Rightarrow> string" where
  "decimal_string n =
     (if n < 10 then [''0123456789'' ! n]
      else decimal_string (n div 10) @ [''0123456789'' ! (n mod 10)])"

declare decimal_string.simps [simp del]

text \<open>\<open>xs.findIndex(p)\<close>, with \<open>None\<close> for -1, and \<open>xs.splice(i, 1)\<close>.\<close>

fun findIndex :: "('a \<Rightarrow> bool) \<Rightarrow> 'a list \<Rightarrow> nat option" where
  "findIndex p [] = None"
| "findIndex p (x # xs) = (if p x then Some 0 else map_option Suc (findIndex p xs))"

definition splice1 :: "nat \<Rightarrow> 'a list \<Rightarrow> 'a list" where
  "splice1 i xs = take i xs @ drop (Suc i) xs"

text \<open>\<open>s.includes(t)\<close>: \<open>t\<close> occurs in \<open>s\<close> as a contiguous substring.\<close>

fun includes_str :: "string \<Rightarrow> string \<Rightarrow> bool" where
  "includes_str [] t = (t = [])"
| "includes_str (x # xs) t = (prefix t (x # xs) \<or> includes_str xs t)"

subsection \<open>Array.prototype.sort and Array.prototype.slice\<close>

text \<open>
  \<open>xs.sort(cmp)\<close> is a stable sort: \<open>x\<close> stays ahead of \<open>y\<close> unless the comparator puts it
  after (a positive result); a \<open>NaN\<close> result counts as zero. It is modelled as the stable
  insertion sort by the comparator, which is the order every stable sort produces when
  the comparator is consistent.
\<close>

fun not_after :: "number \<Rightarrow> bool" where
  "not_after NaN = True"
| "not_after NegInfinity = True"
| "not_after (Finite v) = (v \<le> 0)"
| "not_after Infinity = False"

fun insert_by :: "('a \<Rightarrow> 'a \<Rightarrow> number) \<Rightarrow> 'a \<Rightarrow> 'a list \<Rightarrow> 'a list" where
  "insert_by cmp x [] = [x]"
| "insert_by cmp x (y # ys) =
     (if not_after (cmp x y) then x # y # ys else y # insert_by cmp x ys)"

definition js_sort :: "('a \<Rightarrow> 'a \<Rightarrow> number) \<Rightarrow> 'a list \<Rightarrow> 'a list" where
  "js_sort cmp xs = foldr (insert_by cmp) xs []"

text \<open>
  An index argument of \<open>slice\<close> against a length: \<open>NaN\<close> is 0, a negative index counts
  from the end, and the result is clamped to the array.
\<close>

definition clamp_index :: "nat \<Rightarrow> int option \<Rightarrow> nat" where
  "clamp_index len i =
     (case i of
        None \<Rightarrow> 0
      | Some r \<Rightarrow> if r < 0 then nat (max (int len + r) 0) else min (nat r) len)"

definition js_slice :: "int option \<Rightarrow> int option \<Rightarrow> 'a list \<Rightarrow> 'a list" where
  "js_slice start end_i xs =
     (let k = clamp_index (length xs) start;
          final = clamp_index (length xs) end_i
      in take (final - k) (drop k xs))"

text \<open>\<open>a + b\<close> and \<open>Math.floor(a / b) + 1\<close> on parsed integers; \<open>None\<close> is a result that
  is not a finite number, which the JSON response writes as \<open>null\<close>.\<close>

definition num_add :: "int option \<Rightarrow> int option \<Rightarrow> int option" where
  "num_add a b = (case (a, b) of (Some x, Some y) \<Rightarrow> Some (x + y) | _ \<Rightarrow> None)"

definition page_number :: "int option \<Rightarrow> int option \<Rightarrow> int option" where
  "page_number startIndex limitNum =
     (case (startIndex, limitNum) of
        (Some s, Some l) \<Rightarrow> if l = 0 then None else Some (s div l + 1)
      | _ \<Rightarrow> None)"

subsection \<open>Responses\<close>

text \<open>A handler answers with a status and a JSON body, or with a status and an error message.\<close>

datatype 'a response = Success nat 'a | Failure nat string

fun status :: "'a response \<Rightarrow> nat" where
  "status (Success n b) = n"
| "status (Failure n e) = n"

fun body :: "'a response \<Rightarrow> 'a option" where
  "body (Success n b) = Some b"
| "body (Failure n e) = None"

section \<open>Courses\<close>

record course =
  id_c :: string
  title :: string
  description :: string
  instructor :: string
  author :: string
  price :: rat
  original_price :: rat
  rating :: rat
  review_count :: int
  student_count :: int
  thumbnail :: string
  category :: string
  level :: string
  featured :: bool
  is_published :: bool
  created_at_c :: string
  duration_hours :: int
  lesson_count :: int
  tags :: "string list"

definition mockCourses :: "course list" where
  "mockCourses =
    [\<lparr>id_c = ''course_1'',
      title = ''Introduction to Web Development'',
      description = ''Learn the fundamentals of web development with HTML, CSS, and JavaScript'',
      instructor = ''Dr. Sarah Johnson'',
      author = ''tutor_1'',
      price = 9999 / 100,
      original_price = 14999 / 100,
      rating = 48 / 10,
      review_count = 156,
      student_count = 1250,
      thumbnail = ''/placeholder.jpg'',
      category = ''Programming'',
      level = ''Beginner'',
      featured = True,
      is_published = True,
      created_at_c = ''2024-01-01T00:00:00Z'',
      duration_hours = 40,
      lesson_count = 25,
      tags = [''HTML'', ''CSS'', ''JavaScript'', ''Web Development'']\<rparr>,
     \<lparr>id_c = ''course_2'',
      title = ''Advanced React Development'',
      description = ''Master React with hooks, context, and advanced patterns'',
      instructor = ''Prof. Michael Chen'',
      author = ''tutor_2'',
      price = 14999 / 100,
      original_price = 19999 / 100,
      rating = 49 / 10,
      review_count = 89,
      student_count = 890,
      thumbnail = ''/placeholder.jpg'',
      category = ''Programming'',
      level = ''Advanced'',
      featured = True,
      is_published = True,
      created_at_c = ''2024-02-01T00:00:00Z'',
      duration_hours = 60,
      lesson_count = 35,
      tags = [''React'', ''JavaScript'', ''Frontend'', ''Hooks'']\<rparr>]"

text \<open>The query parameters of \<open>GET /courses\<close>, each absent or a string.\<close>

record course_query =
  search :: "string option"
  category_q :: "string option"
  level_q :: "string option"
  featured_q :: "string option"
  priceMin :: "string option"
  priceMax :: "string option"
  sortBy :: "string option"
  limit :: "string option"
  offset :: "string option"

record courses_body =
  courses :: "course list"
  total :: nat
  page :: "int option"
  limit_b :: "int option"

subsection \<open>GET /courses\<close>

text \<open>The six filters, in the order the handler applies them.\<close>

definition filter_courses :: "builtins \<Rightarrow> course_query \<Rightarrow> course list \<Rightarrow> course list" where
  "filter_courses env q cs =
     (let filteredCourses = cs;
          filteredCourses =
            (if truthy_param (search q) then
               (let searchLower = toLowerCase env (the (search q))
                in filter (\<lambda>c. includes_str (toLowerCase env (title c)) searchLower
                              \<or> includes_str (toLowerCase env (instructor c)) searchLower
                              \<or> includes_str (toLowerCase env (description c)) searchLower)
                     filteredCourses)
             else filteredCourses);
          filteredCourses =
            (if truthy_param (category_q q)
             then filter (\<lambda>c. category c = the (category_q q)) filteredCourses
             else filteredCourses);
          filteredCourses =
            (if truthy_param (level_q q)
             then filter (\<lambda>c. level c = the (level_q q)) filteredCourses
             else filteredCourses);
          filteredCourses =
            (if featured_q q \<noteq> None
             then filter (\<lambda>c. featured c = (featured_q q = Some ''true'')) filteredCourses
             else filteredCourses);
          filteredCourses =
            (if truthy_param (priceMin q)
             then filter (\<lambda>c. num_ge (price c) (parseFloat env (the (priceMin q)))) filteredCourses
             else filteredCourses);
          filteredCourses =
            (if truthy_param (priceMax q)
             then filter (\<lambda>c. num_le (price c) (parseFloat env (the (priceMax q)))) filteredCourses
             else filteredCourses)
      in filteredCourses)"

text \<open>The comparators of the \<open>sortBy\<close> switch.\<close>

definition by_price_low :: "course \<Rightarrow> course \<Rightarrow> number" where
  "by_price_low a b = Finite (price a - price b)"

definition by_price_high :: "course \<Rightarrow> course \<Rightarrow> number" where
  "by_price_high a b = Finite (price b - price a)"

definition by_rating :: "course \<Rightarrow> course \<Rightarrow> number" where
  "by_rating a b = Finite (rating b - rating a)"

definition by_newest :: "builtins \<Rightarrow> course \<Rightarrow> course \<Rightarrow> number" where
  "by_newest env a b =
     (case (getTime env (created_at_c b), getTime env (created_at_c a)) of
        (Some tb, Some ta) \<Rightarrow> Finite (of_int (tb - ta))
      | _ \<Rightarrow> NaN)"

definition by_popular :: "course \<Rightarrow> course \<Rightarrow> number" where
  "by_popular a b = Finite (of_int (student_count b - student_count a))"

definition sort_courses :: "builtins \<Rightarrow> course_query \<Rightarrow> course list \<Rightarrow> course list" where
  "sort_courses env q filteredCourses =
     (if truthy_param (sortBy q) then
        (if sortBy q = Some ''price-low'' then js_sort by_price_low filteredCourses
         else if sortBy q = Some ''price-high'' then js_sort by_price_high filteredCourses
         else if sortBy q = Some ''rating'' then js_sort by_rating filteredCourses
         else if sortBy q = Some ''newest'' then js_sort (by_newest env) filteredCourses
         else js_sort by_popular filteredCourses)
      else filteredCourses)"

text \<open>\<open>offset\<close> and \<open>limit\<close> default to 0 and 20 when absent, and are parsed otherwise.\<close>

definition start_index :: "builtins \<Rightarrow> course_query \<Rightarrow> int option" where
  "start_index env q = (case offset q of None \<Rightarrow> Some 0 | Some s \<Rightarrow> parseInt env s)"

definition limit_num :: "builtins \<Rightarrow> course_query \<Rightarrow> int option" where
  "limit_num env q = (case limit q of None \<Rightarrow> Some 20 | Some s \<Rightarrow> parseInt env s)"

definition get_courses :: "builtins \<Rightarrow> course list \<Rightarrow> course_query \<Rightarrow> courses_body response" where
  "get_courses env store q =
     (let filteredCourses = sort_courses env q (filter_courses env q store);
          startIndex = start_index env q;
          limitNum = limit_num env q;
          paginatedCourses = js_slice startIndex (num_add startIndex limitNum) filteredCourses
      in Success 200
           \<lparr>courses = paginatedCourses,
            total = length filteredCourses,
            page = page_number startIndex limitNum,
            limit_b = limitNum\<rparr>)"

subsection \<open>GET /courses/category/:category\<close>

record category_body =
  courses_cat :: "course list"
  category_cat :: string
  total_cat :: nat

definition get_category ::
  "builtins \<Rightarrow> course list \<Rightarrow> string \<Rightarrow> string option \<Rightarrow> category_body response" where
  "get_category env store cat limit_p =
     (let categoryExists = list_ex (\<lambda>c. category c = cat) store
      in if \<not> categoryExists then Failure 404 ''Category not found''
         else
           (let coursesByCategory = filter (\<lambda>c. category c = cat) store;
                coursesByCategory =
                  (if truthy_param limit_p
                   then js_slice (Some 0) (parseInt env (the limit_p)) coursesByCategory
                   else coursesByCategory)
            in Success 200
                 \<lparr>courses_cat = coursesByCategory,
                  category_cat = cat,
                  total_cat = length coursesByCategory\<rparr>))"

section \<open>Enrollments\<close>

record enrollment =
  id_e :: string
  created_at_e :: string
  student_id :: jsval
  course_id :: jsval
  tutor_id :: jsval

definition mockEnrollments :: "enrollment list" where
  "mockEnrollments =
    [\<lparr>id_e = ''enrollment_1'', created_at_e = ''2024-01-15T10:00:00Z'',
      student_id = Str ''user_123'', course_id = Str ''course_1'', tutor_id = Str ''tutor_1''\<rparr>,
     \<lparr>id_e = ''enrollment_2'', created_at_e = ''2024-01-20T15:30:00Z'',
      student_id = Str ''user_456'', course_id = Str ''course_2'', tutor_id = Str ''tutor_2''\<rparr>]"

text \<open>The (student, course) pairs of a store, in order.\<close>

definition pairs :: "enrollment list \<Rightarrow> (jsval \<times> jsval) list" where
  "pairs store = map (\<lambda>e. (student_id e, course_id e)) store"

subsection \<open>POST /enrollments\<close>

text \<open>The three fields the handler reads from the request body.\<close>

record enrollment_request =
  student_id_r :: jsval
  course_id_r :: jsval
  tutor_id_r :: jsval

record enrollment_created =
  enrollment_b :: enrollment
  message_b :: string

definition post_enrollment ::
  "clock \<Rightarrow> enrollment list \<Rightarrow> enrollment_request
     \<Rightarrow> enrollment_created response \<times> enrollment list" where
  "post_enrollment clk store req =
     (if \<not> truthy (student_id_r req) \<or> \<not> truthy (course_id_r req)
      then (Failure 400 ''student_id and course_id are required'', store)
      else
        (case find (\<lambda>e. strict_eq (student_id e) (student_id_r req)
                         \<and> strict_eq (course_id e) (course_id_r req)) store of
           Some existingEnrollment \<Rightarrow>
             (Failure 409 ''Student is already enrolled in this course'', store)
         | None \<Rightarrow>
             (let newEnrollment =
                    \<lparr>id_e = ''enrollment_'' @ decimal_string (now_ms clk),
                     created_at_e = now_iso clk,
                     student_id = student_id_r req,
                     course_id = course_id_r req,
                     tutor_id = js_or (tutor_id_r req) Null\<rparr>
              in (Success 201
                    \<lparr>enrollment_b = newEnrollment,
                     message_b = ''Enrollment created successfully''\<rparr>,
                  store @ [newEnrollment]))))"

subsection \<open>DELETE /enrollments/:enrollmentId\<close>

record enrollment_removed =
  message_r :: string
  enrollment_id_r :: string

definition delete_enrollment ::
  "enrollment list \<Rightarrow> string \<Rightarrow> enrollment_removed response \<times> enrollment list" where
  "delete_enrollment store enrollmentId =
     (case findIndex (\<lambda>e. id_e e = enrollmentId) store of
        None \<Rightarrow> (Failure 404 ''Enrollment not found'', store)
      | Some enrollmentIndex \<Rightarrow>
          (Success 200
             \<lparr>message_r = ''Enrollment removed successfully'', enrollment_id_r = enrollmentId\<rparr>,
           splice1 enrollmentIndex store))"

subsection \<open>POST /enrollments/student/:studentId/unenroll\<close>

record unenrolled =
  message_u :: string
  student_id_u :: string
  course_id_u :: jsval

definition unenroll ::
  "enrollment list \<Rightarrow> string \<Rightarrow> jsval \<Rightarrow> unenrolled response \<times> enrollment list" where
  "unenroll store studentId course_id_body =
     (if \<not> truthy course_id_body then (Failure 400 ''course_id is required'', store)
      else
        (case findIndex (\<lambda>e. student_id e = Str studentId
                              \<and> strict_eq (course_id e) course_id_body) store of
           None \<Rightarrow> (Failure 404 ''Enrollment not found for this student and course'', store)
         | Some enrollmentIndex \<Rightarrow>
             (Success 200
                \<lparr>message_u = ''Unenrolled successfully'',
                 student_id_u = studentId,
                 course_id_u = course_id_body\<rparr>,
              splice1 enrollmentIndex store)))"

section \<open>Users and student profiles\<close>

record user =
  id_u :: string
  email_u :: string
  created_at_u :: string

text \<open>
  A stored profile. Its fields are assigned from request bodies without a check of their
  type, so each holds a value; \<open>updated_at\<close> is absent until the first update.
\<close>

record student =
  id_s :: jsval
  First_name :: jsval
  Last_name :: jsval
  email_s :: jsval
  display_name :: jsval
  academic_level :: jsval
  profile_picture :: jsval
  created_at_s :: jsval
  updated_at :: jsval

definition mockUsers :: "user list" where
  "mockUsers =
    [\<lparr>id_u = ''user_123'', email_u = ''john.doe@example.com'',
      created_at_u = ''2024-01-01T00:00:00Z''\<rparr>,
     \<lparr>id_u = ''user_456'', email_u = ''jane.smith@example.com'',
      created_at_u = ''2024-01-15T00:00:00Z''\<rparr>]"

definition mockStudents :: "student list" where
  "mockStudents =
    [\<lparr>id_s = Str ''user_123'', First_name = Str ''John'', Last_name = Str ''Doe'',
      email_s = Str ''john.doe@example.com'', display_name = Str ''John Doe'',
      academic_level = Str ''University'', profile_picture = Null,
      created_at_s = Str ''2024-01-01T00:00:00Z'', updated_at = Undefined\<rparr>,
     \<lparr>id_s = Str ''user_456'', First_name = Str ''Jane'', Last_name = Str ''Smith'',
      email_s = Str ''jane.smith@example.com'', display_name = Str ''Jane Smith'',
      academic_level = Str ''Graduate'', profile_picture = Str ''/avatars/jane.jpg'',
      created_at_s = Str ''2024-01-15T00:00:00Z'', updated_at = Undefined\<rparr>]"

subsection \<open>GET /users/profile/:userId\<close>

text \<open>The \<open>student\<close> of the response is \<open>null\<close> (\<open>None\<close>) when no profile has the id.\<close>

record profile_body =
  user_b :: user
  student_b :: "student option"

definition get_profile :: "user list \<Rightarrow> student list \<Rightarrow> string \<Rightarrow> profile_body response" where
  "get_profile users students userId =
     (let user = find (\<lambda>u. id_u u = userId) users;
          student = find (\<lambda>s. id_s s = Str userId) students
      in case user of
           None \<Rightarrow> Failure 404 ''User not found''
         | Some u \<Rightarrow> Success 200 \<lparr>user_b = u, student_b = student\<rparr>)"

subsection \<open>PUT /users/profile/:userId\<close>

text \<open>The five fields the handler reads from the request body; any other key is ignored.\<close>

record profile_update =
  First_name_r :: jsval
  Last_name_r :: jsval
  display_name_r :: jsval
  academic_level_r :: jsval
  profile_picture_r :: jsval

record student_body =
  student_sb :: student
  message_sb :: string

text \<open>The object spread: a later source overrides a field, and a falsy source adds nothing.\<close>

definition merge_student :: "clock \<Rightarrow> student \<Rightarrow> profile_update \<Rightarrow> student" where
  "merge_student clk old req =
     old\<lparr>First_name := (if truthy (First_name_r req) then First_name_r req else First_name old),
         Last_name := (if truthy (Last_name_r req) then Last_name_r req else Last_name old),
         display_name :=
           (if truthy (display_name_r req) then display_name_r req else display_name old),
         academic_level :=
           (if truthy (academic_level_r req) then academic_level_r req else academic_level old),
         profile_picture :=
           (if profile_picture_r req \<noteq> Undefined then profile_picture_r req
            else profile_picture old),
         updated_at := Str (now_iso clk)\<rparr>"

definition put_profile ::
  "clock \<Rightarrow> student list \<Rightarrow> string \<Rightarrow> profile_update
     \<Rightarrow> student_body response \<times> student list" where
  "put_profile clk students userId req =
     (case findIndex (\<lambda>s. id_s s = Str userId) students of
        None \<Rightarrow> (Failure 404 ''User profile not found'', students)
      | Some studentIndex \<Rightarrow>
          (let updatedStudent = merge_student clk (students ! studentIndex) req
           in (Success 200
                 \<lparr>student_sb = updatedStudent, message_sb = ''Profile updated successfully''\<rparr>,
               students[studentIndex := updatedStudent])))"

subsection \<open>POST /users/create-profile\<close>

record create_profile_request =
  id_r :: jsval
  firstName :: jsval
  lastName :: jsval
  email_r :: jsval
  displayName :: jsval
  academicLevel :: jsval
  profilePicture :: jsval

definition create_profile ::
  "builtins \<Rightarrow> clock \<Rightarrow> student list \<Rightarrow> create_profile_request
     \<Rightarrow> student_body response \<times> student list" where
  "create_profile env clk students req =
     (if \<not> truthy (id_r req) \<or> \<not> truthy (firstName req) \<or> \<not> truthy (lastName req)
         \<or> \<not> truthy (email_r req)
      then (Failure 400 ''id, firstName, lastName, and email are required'', students)
      else
        (case find (\<lambda>s. strict_eq (id_s s) (id_r req)) students of
           Some existingStudent \<Rightarrow> (Failure 400 ''Student profile already exists'', students)
         | None \<Rightarrow>
             (let newStudent =
                    \<lparr>id_s = id_r req,
                     First_name = firstName req,
                     Last_name = lastName req,
                     email_s = email_r req,
                     display_name =
                       js_or (displayName req)
                         (Str (to_string env (firstName req) @ '' '' @ to_string env (lastName req))),
                     academic_level = js_or (academicLevel req) Null,
                     profile_picture = js_or (profilePicture req) Null,
                     created_at_s = Str (now_iso clk),
                     updated_at = Undefined\<rparr>
              in (Success 201
                    \<lparr>student_sb = newStudent,
                     message_sb = ''Student profile created successfully''\<rparr>,
                  students @ [newStudent]))))"

section \<open>The vocabulary of the properties\<close>

text \<open>The course sequence a response carries.\<close>

definition returned_courses :: "courses_body response \<Rightarrow> course list" where
  "returned_courses r = (case r of Success n b \<Rightarrow> courses b | Failure n e \<Rightarrow> [])"

text \<open>A sequence whose key never decreases, or never increases, from one record to the next.\<close>

definition ascending :: "('a \<Rightarrow> 'k::linorder) \<Rightarrow> 'a list \<Rightarrow> bool" where
  "ascending key xs = sorted_wrt (\<lambda>a b. key a \<le> key b) xs"

definition descending :: "('a \<Rightarrow> 'k::linorder) \<Rightarrow> 'a list \<Rightarrow> bool" where
  "descending key xs = sorted_wrt (\<lambda>a b. key b \<le> key a) xs"

text \<open>
  Stability: for each key value, the records with that key are the same sequence after
  the sort as before it.
\<close>

definition stable_by :: "('a \<Rightarrow> 'k) \<Rightarrow> 'a list \<Rightarrow> 'a list \<Rightarrow> bool" where
  "stable_by key before after =
     (\<forall>k \<in> set (map key before) \<union> set (map key after).
        filter (\<lambda>x. key x = k) after = filter (\<lambda>x. key x = k) before)"

subsection \<open>What the specification says of the course query\<close>

text \<open>
  The specification's contract for the filter: a course is selected when it satisfies every
  criterion that is supplied, and a criterion that is not supplied imposes no constraint.
  The criteria are the case-insensitive substring match of the search text against title,
  instructor or description, the exact category, the exact level, the exact featured flag,
  and the inclusive price bounds. A text parameter supplies a criterion when it is present
  and not empty; the featured flag when it is present.
\<close>

definition criterion :: "string option \<Rightarrow> (string \<Rightarrow> bool) \<Rightarrow> bool" where
  "criterion p test = (case p of None \<Rightarrow> True | Some s \<Rightarrow> s = [] \<or> test s)"

definition satisfies_criteria :: "builtins \<Rightarrow> course_query \<Rightarrow> course \<Rightarrow> bool" where
  "satisfies_criteria env q c =
     (criterion (search q)
        (\<lambda>s. includes_str (toLowerCase env (title c)) (toLowerCase env s)
           \<or> includes_str (toLowerCase env (instructor c)) (toLowerCase env s)
           \<or> includes_str (toLowerCase env (description c)) (toLowerCase env s))
      \<and> criterion (category_q q) (\<lambda>s. category c = s)
      \<and> criterion (level_q q) (\<lambda>s. level c = s)
      \<and> (case featured_q q of None \<Rightarrow> True | Some s \<Rightarrow> featured c = (s = ''true''))
      \<and> criterion (priceMin q) (\<lambda>s. num_ge (price c) (parseFloat env s))
      \<and> criterion (priceMax q) (\<lambda>s. num_le (price c) (parseFloat env s)))"

subsection \<open>An instance of the library functions\<close>

text \<open>
  For evaluating the handlers on concrete requests: lower-casing of ASCII letters, parsing
  of plain decimal digit strings, the time values of the two seeded creation dates, and
  the digits of a natural number.
  On these inputs the functions agree with the ones of the language.
\<close>

definition lower_char :: "char \<Rightarrow> char" where
  "lower_char c =
     (let n = (of_char c :: nat)
      in if of_char CHR ''A'' \<le> n \<and> n \<le> of_char CHR ''Z'' then char_of (n + 32) else c)"

fun digits_value :: "nat \<Rightarrow> string \<Rightarrow> nat option" where
  "digits_value acc [] = Some acc"
| "digits_value acc (c # cs) =
     (let n = (of_char c :: nat)
      in if of_char CHR ''0'' \<le> n \<and> n \<le> of_char CHR ''9''
         then digits_value (10 * acc + (n - of_char CHR ''0'')) cs
         else None)"

definition decimal :: "string \<Rightarrow> nat option" where
  "decimal s = (if s = [] then None else digits_value 0 s)"

definition plain_builtins :: builtins where
  "plain_builtins =
     \<lparr>toLowerCase = map lower_char,
      parseFloat = (\<lambda>s. case decimal s of None \<Rightarrow> NaN | Some n \<Rightarrow> Finite (of_nat n)),
      parseInt = (\<lambda>s. map_option int (decimal s)),
      getTime = (\<lambda>s. if s = ''2024-01-01T00:00:00Z'' then Some 1704067200000
                      else if s = ''2024-02-01T00:00:00Z'' then Some 1706745600000
                      else None),
      numberToString = (\<lambda>r. decimal_string (nat \<lfloor>r\<rfloor>))\<rparr>"

definition sample_clock :: clock where
  "sample_clock = \<lparr>now_ms = 1700000000000, now_iso = ''2023-11-14T22:13:20.000Z''\<rparr>"

text \<open>A request without any query parameter.\<close>

definition no_query :: course_query where
  "no_query =
     \<lparr>search = None, category_q = None, level_q = None, featured_q = None,
      priceMin = None, priceMax = None, sortBy = None, limit = None, offset = None\<rparr>"

section \<open>Properties of the course handlers\<close>

subsection \<open>Sorting and slicing\<close>

lemma length_insert_by: "length (insert_by cmp x ys) = Suc (length ys)"
  by (induction ys) auto

lemma length_js_sort: "length (js_sort cmp xs) = length xs"
  unfolding js_sort_def by (induction xs) (auto simp: length_insert_by)

lemma length_sort_courses: "length (sort_courses env q cs) = length cs"
  by (simp add: sort_courses_def length_js_sort)

text \<open>
  When the comparator is the difference of a key, the sort is the stable sort by that
  key (by the negated key for a descending comparator).
\<close>

lemma insert_by_insort_key:
  "(\<And>y. y \<in> set ys \<Longrightarrow> not_after (cmp x y) = (key x \<le> key y))
   \<Longrightarrow> insert_by cmp x ys = insort_key key x ys"
  by (induction ys) auto

lemma js_sort_sort_key:
  fixes key :: "'a \<Rightarrow> 'k::linorder"
  assumes "\<And>a b. a \<in> set xs \<Longrightarrow> b \<in> set xs \<Longrightarrow> not_after (cmp a b) = (key a \<le> key b)"
  shows "js_sort cmp xs = sort_key key xs"
  using assms
proof (induction xs)
  case Nil
  show ?case by (simp add: js_sort_def)
next
  case (Cons x xs)
  have rest: "js_sort cmp xs = sort_key key xs"
    using Cons by simp
  have "insert_by cmp x (sort_key key xs) = insort_key key x (sort_key key xs)"
    by (rule insert_by_insort_key) (simp add: Cons.prems)
  with rest show ?case
    by (simp add: js_sort_def sort_key_def)
qed

lemma sorted_wrt_js_slice: "sorted_wrt R xs \<Longrightarrow> sorted_wrt R (js_slice s e xs)"
  by (simp add: js_slice_def Let_def)

lemma price_low_is_sort_key: "js_sort by_price_low xs = sort_key price xs"
  by (rule js_sort_sort_key) (simp add: by_price_low_def)

lemma price_high_is_sort_key: "js_sort by_price_high xs = sort_key (\<lambda>c. - price c) xs"
  by (rule js_sort_sort_key) (simp add: by_price_high_def)

lemma rating_is_sort_key: "js_sort by_rating xs = sort_key (\<lambda>c. - rating c) xs"
  by (rule js_sort_sort_key) (simp add: by_rating_def)

lemma popular_is_sort_key: "js_sort by_popular xs = sort_key (\<lambda>c. - student_count c) xs"
  by (rule js_sort_sort_key) (simp add: by_popular_def)

lemma newest_is_sort_key:
  assumes "\<And>c. c \<in> set xs \<Longrightarrow> getTime env (created_at_c c) \<noteq> None"
  shows "js_sort (by_newest env) xs = sort_key (\<lambda>c. - the (getTime env (created_at_c c))) xs"
proof (rule js_sort_sort_key)
  fix a b
  assume "a \<in> set xs" and "b \<in> set xs"
  then obtain ta tb where
    "getTime env (created_at_c a) = Some ta" and "getTime env (created_at_c b) = Some tb"
    using assms by fastforce
  then show "not_after (by_newest env a b)
      = (- the (getTime env (created_at_c a)) \<le> - the (getTime env (created_at_c b)))"
    by (simp add: by_newest_def)
qed

lemma ascending_sort_key: "ascending key (sort_key key xs)"
  using sorted_sort_key [of key xs] by (simp add: ascending_def sorted_map)

lemma descending_sort_key:
  fixes key :: "'a \<Rightarrow> 'k::{linorder,ordered_ab_group_add}"
  shows "descending key (sort_key (\<lambda>c. - key c) xs)"
  using sorted_sort_key [of "\<lambda>c. - key c" xs] by (simp add: descending_def sorted_map)

lemma stable_by_sort_key: "stable_by key xs (sort_key key xs)"
  by (simp add: stable_by_def sort_key_stable)

lemma stable_by_sort_key_neg:
  fixes key :: "'a \<Rightarrow> 'k::{linorder,ordered_ab_group_add}"
  shows "stable_by key xs (sort_key (\<lambda>c. - key c) xs)"
proof -
  have "filter (\<lambda>x. key x = k) (sort_key (\<lambda>c. - key c) xs) = filter (\<lambda>x. key x = k) xs" for k
    using sort_key_stable [of "\<lambda>c. - key c" "- k" xs] by simp
  then show ?thesis by (simp add: stable_by_def)
qed

lemma ascending_js_slice: "ascending key xs \<Longrightarrow> ascending key (js_slice s e xs)"
  by (simp add: ascending_def sorted_wrt_js_slice)

lemma descending_js_slice: "descending key xs \<Longrightarrow> descending key (js_slice s e xs)"
  by (simp add: descending_def sorted_wrt_js_slice)

lemma returned_courses_get_courses:
  "returned_courses (get_courses env store q)
     = js_slice (start_index env q) (num_add (start_index env q) (limit_num env q))
         (sort_courses env q (filter_courses env q store))"
  by (simp add: returned_courses_def get_courses_def Let_def)

subsection \<open>The filters select what the contract says\<close>

lemma criterion_truthy:
  "criterion p test = (truthy_param p \<longrightarrow> test (the p))"
  by (cases p) (auto simp: criterion_def truthy_param_def)

lemma filter_courses_satisfies:
  "filter_courses env q cs = filter (satisfies_criteria env q) cs"
  unfolding filter_courses_def satisfies_criteria_def criterion_truthy Let_def
  by (cases "featured_q q") (auto intro!: filter_cong)

lemma set_filter_courses: "set (filter_courses env q store) \<subseteq> set store"
  by (simp add: filter_courses_satisfies)

lemma satisfies_criteria_paging:
  "satisfies_criteria env (q\<lparr>limit := l, offset := off\<rparr>) = satisfies_criteria env q"
  by (rule ext) (simp add: satisfies_criteria_def)

text \<open>
  C1. \<open>GET /courses\<close> always answers 200, and the \<open>total\<close> of its response is the number of
  courses of the store that satisfy every supplied filter criterion, whatever the filters
  are; replacing \<open>limit\<close> and \<open>offset\<close> by any other values leaves \<open>total\<close> as it is.
\<close>

theorem courses_total_is_filter_count:
  "status (get_courses env store q) = 200
   \<and> map_option total (body (get_courses env store q))
       = Some (length (filter (satisfies_criteria env q) store))
   \<and> map_option total (body (get_courses env store (q\<lparr>limit := l, offset := off\<rparr>)))
       = map_option total (body (get_courses env store q))"
  by (simp add: get_courses_def Let_def length_sort_courses filter_courses_satisfies
      satisfies_criteria_paging)

text \<open>On the seeded store, \<open>GET /courses?level=Beginner\<close> reports one course, with any paging.\<close>

theorem courses_total_is_filter_count_witness:
  "status (get_courses plain_builtins mockCourses (no_query\<lparr>level_q := Some ''Beginner''\<rparr>)) = 200
   \<and> map_option total
        (body (get_courses plain_builtins mockCourses (no_query\<lparr>level_q := Some ''Beginner''\<rparr>)))
       = Some 1
   \<and> length (filter (satisfies_criteria plain_builtins (no_query\<lparr>level_q := Some ''Beginner''\<rparr>))
        mockCourses) = 1
   \<and> map_option total
        (body (get_courses plain_builtins mockCourses
           (no_query\<lparr>level_q := Some ''Beginner'', limit := Some ''0'', offset := Some ''7''\<rparr>)))
       = Some 1"
  using courses_total_is_filter_count
    [of plain_builtins mockCourses "no_query\<lparr>level_q := Some ''Beginner''\<rparr>" "Some ''0''" "Some ''7''"]
  by code_simp

subsection \<open>Ordering of the response\<close>







text \<open>
  C5. For each key of the \<open>sortBy\<close> switch the returned courses are monotonic in the key
  of the sort: non-decreasing price for \<open>price-low\<close>, non-increasing price for
  \<open>price-high\<close>, non-increasing rating, student count and creation time for \<open>rating\<close>,
  \<open>popular\<close> and \<open>newest\<close> (the last when every stored creation date parses). The sort is
  stable: among the selected courses, those of equal key keep their order. The response
  is a slice of the sorted sequence.
\<close>

theorem courses_sorted_and_stable:
  "let selected = filter_courses env q store;
       ordered = sort_courses env q selected;
       result = returned_courses (get_courses env store q)
   in result = js_slice (start_index env q) (num_add (start_index env q) (limit_num env q)) ordered
      \<and> (sortBy q = Some ''price-low''
           \<longrightarrow> ascending price result \<and> stable_by price selected ordered)
      \<and> (sortBy q = Some ''price-high''
           \<longrightarrow> descending price result \<and> stable_by price selected ordered)
      \<and> (sortBy q = Some ''rating''
           \<longrightarrow> descending rating result \<and> stable_by rating selected ordered)
      \<and> (sortBy q = Some ''popular''
           \<longrightarrow> descending student_count result \<and> stable_by student_count selected ordered)
      \<and> (sortBy q = Some ''newest'' \<and> (\<forall>c \<in> set store. getTime env (created_at_c c) \<noteq> None)
           \<longrightarrow> descending (\<lambda>c. the (getTime env (created_at_c c))) result
             \<and> stable_by (\<lambda>c. the (getTime env (created_at_c c))) selected ordered)"
proof -
  let ?selected = "filter_courses env q store"
  let ?slice = "js_slice (start_index env q) (num_add (start_index env q) (limit_num env q))"
  let ?time = "\<lambda>c. the (getTime env (created_at_c c))"
  have low: "ascending price (?slice (sort_courses env q ?selected))
      \<and> stable_by price ?selected (sort_courses env q ?selected)"
    if "sortBy q = Some ''price-low''"
    using that
    by (simp add: sort_courses_def truthy_param_def price_low_is_sort_key
        ascending_js_slice ascending_sort_key stable_by_sort_key)
  have high: "descending price (?slice (sort_courses env q ?selected))
      \<and> stable_by price ?selected (sort_courses env q ?selected)"
    if "sortBy q = Some ''price-high''"
    using that
    by (simp add: sort_courses_def truthy_param_def price_high_is_sort_key
        descending_js_slice descending_sort_key stable_by_sort_key_neg)
  have rated: "descending rating (?slice (sort_courses env q ?selected))
      \<and> stable_by rating ?selected (sort_courses env q ?selected)"
    if "sortBy q = Some ''rating''"
    using that
    by (simp add: sort_courses_def truthy_param_def rating_is_sort_key
        descending_js_slice descending_sort_key stable_by_sort_key_neg)
  have popular: "descending student_count (?slice (sort_courses env q ?selected))
      \<and> stable_by student_count ?selected (sort_courses env q ?selected)"
    if "sortBy q = Some ''popular''"
    using that
    by (simp add: sort_courses_def truthy_param_def popular_is_sort_key
        descending_js_slice descending_sort_key stable_by_sort_key_neg)
  have newest: "descending ?time (?slice (sort_courses env q ?selected))
      \<and> stable_by ?time ?selected (sort_courses env q ?selected)"
    if "sortBy q = Some ''newest''" and "\<forall>c \<in> set store. getTime env (created_at_c c) \<noteq> None"
  proof -
    have "js_sort (by_newest env) ?selected = sort_key (\<lambda>c. - ?time c) ?selected"
      by (rule newest_is_sort_key) (use that set_filter_courses in blast)
    with that(1) have "sort_courses env q ?selected = sort_key (\<lambda>c. - ?time c) ?selected"
      by (simp add: sort_courses_def truthy_param_def)
    then show ?thesis
      by (simp add: descending_js_slice descending_sort_key stable_by_sort_key_neg)
  qed
  show ?thesis
    unfolding Let_def returned_courses_get_courses
    using low high rated popular newest by blast
qed

text \<open>
  The seeded store under each key; \<open>price-high\<close> returns \<open>course_2\<close> before \<open>course_1\<close>.
\<close>

theorem courses_sorted_and_stable_witness:
  "ascending price
     (returned_courses (get_courses plain_builtins mockCourses (no_query\<lparr>sortBy := Some ''price-low''\<rparr>)))
   \<and> descending price
     (returned_courses (get_courses plain_builtins mockCourses (no_query\<lparr>sortBy := Some ''price-high''\<rparr>)))
   \<and> map id_c
     (returned_courses (get_courses plain_builtins mockCourses (no_query\<lparr>sortBy := Some ''price-high''\<rparr>)))
       = [''course_2'', ''course_1'']
   \<and> descending rating
     (returned_courses (get_courses plain_builtins mockCourses (no_query\<lparr>sortBy := Some ''rating''\<rparr>)))
   \<and> descending student_count
     (returned_courses (get_courses plain_builtins mockCourses (no_query\<lparr>sortBy := Some ''popular''\<rparr>)))
   \<and> descending (\<lambda>c. the (getTime plain_builtins (created_at_c c)))
     (returned_courses (get_courses plain_builtins mockCourses (no_query\<lparr>sortBy := Some ''newest''\<rparr>)))"
proof -
  have dates: "\<forall>c \<in> set mockCourses. getTime plain_builtins (created_at_c c) \<noteq> None"
    by code_simp
  have keys: "sortBy (no_query\<lparr>sortBy := Some k\<rparr>) = Some k" for k
    by simp
  have ids: "map id_c
     (returned_courses (get_courses plain_builtins mockCourses (no_query\<lparr>sortBy := Some ''price-high''\<rparr>)))
       = [''course_2'', ''course_1'']"
    by code_simp
  have low: "ascending price
     (returned_courses (get_courses plain_builtins mockCourses (no_query\<lparr>sortBy := Some ''price-low''\<rparr>)))"
    using courses_sorted_and_stable [of plain_builtins "no_query\<lparr>sortBy := Some ''price-low''\<rparr>" mockCourses]
      keys [of "''price-low''"]
    unfolding Let_def by blast
  have high: "descending price
     (returned_courses (get_courses plain_builtins mockCourses (no_query\<lparr>sortBy := Some ''price-high''\<rparr>)))"
    using courses_sorted_and_stable [of plain_builtins "no_query\<lparr>sortBy := Some ''price-high''\<rparr>" mockCourses]
      keys [of "''price-high''"]
    unfolding Let_def by blast
  have rated: "descending rating
     (returned_courses (get_courses plain_builtins mockCourses (no_query\<lparr>sortBy := Some ''rating''\<rparr>)))"
    using courses_sorted_and_stable [of plain_builtins "no_query\<lparr>sortBy := Some ''rating''\<rparr>" mockCourses]
      keys [of "''rating''"]
    unfolding Let_def by blast
  have popular: "descending student_count
     (returned_courses (get_courses plain_builtins mockCourses (no_query\<lparr>sortBy := Some ''popular''\<rparr>)))"
    using courses_sorted_and_stable [of plain_builtins "no_query\<lparr>sortBy := Some ''popular''\<rparr>" mockCourses]
      keys [of "''popular''"]
    unfolding Let_def by blast
  have newest: "descending (\<lambda>c. the (getTime plain_builtins (created_at_c c)))
     (returned_courses (get_courses plain_builtins mockCourses (no_query\<lparr>sortBy := Some ''newest''\<rparr>)))"
    using courses_sorted_and_stable [of plain_builtins "no_query\<lparr>sortBy := Some ''newest''\<rparr>" mockCourses]
      keys [of "''newest''"] dates
    unfolding Let_def by blast
  from low high ids rated popular newest show ?thesis
    by blast
qed

subsection \<open>Lookup by category\<close>

lemma js_slice_Nil: "js_slice s e [] = []"
  by (simp add: js_slice_def)

lemma sort_courses_Nil: "sort_courses env q [] = []"
  by (simp add: sort_courses_def js_sort_def)

text \<open>
  C7. For a category that no stored course has, the lookup by path answers 404, while
  \<open>GET /courses\<close> with the same string as its \<open>category\<close> parameter answers 200 with no
  course and \<open>total\<close> 0, whatever the other parameters are. The category is not empty: a
  path segment never is.
\<close>

theorem absent_category_asymmetry:
  assumes "cat \<noteq> []" and "\<forall>c \<in> set store. category c \<noteq> cat" and "category_q q = Some cat"
  shows "get_category env store cat limit_p = Failure 404 ''Category not found''
     \<and> status (get_courses env store q) = 200
     \<and> returned_courses (get_courses env store q) = []
     \<and> map_option total (body (get_courses env store q)) = Some 0"
proof -
  have "\<not> list_ex (\<lambda>c. category c = cat) store"
    using assms(2) by (simp add: list_ex_iff)
  then have by_path: "get_category env store cat limit_p = Failure 404 ''Category not found''"
    by (simp add: get_category_def)
  have "\<not> satisfies_criteria env q c" if "c \<in> set store" for c
    using that assms by (auto simp: satisfies_criteria_def criterion_def)
  then have none: "filter_courses env q store = []"
    by (simp add: filter_courses_satisfies)
  have "returned_courses (get_courses env store q) = []"
    by (simp add: returned_courses_get_courses none sort_courses_Nil js_slice_Nil)
  moreover have "map_option total (body (get_courses env store q)) = Some 0"
    by (simp add: get_courses_def Let_def none sort_courses_Nil)
  moreover have "status (get_courses env store q) = 200"
    by (simp add: get_courses_def Let_def)
  ultimately show ?thesis
    using by_path by simp
qed

text \<open>
  The seeded store has no course in \<open>Design\<close>.
\<close>

theorem absent_category_asymmetry_witness:
  "get_category plain_builtins mockCourses ''Design'' None = Failure 404 ''Category not found''
     \<and> status (get_courses plain_builtins mockCourses (no_query\<lparr>category_q := Some ''Design''\<rparr>)) = 200
     \<and> returned_courses (get_courses plain_builtins mockCourses (no_query\<lparr>category_q := Some ''Design''\<rparr>)) = []
     \<and> map_option total
          (body (get_courses plain_builtins mockCourses (no_query\<lparr>category_q := Some ''Design''\<rparr>)))
        = Some 0"
proof -
  have "''Design'' \<noteq> []"
    by simp
  moreover have "\<forall>c \<in> set mockCourses. category c \<noteq> ''Design''"
    by code_simp
  moreover have "category_q (no_query\<lparr>category_q := Some ''Design''\<rparr>) = Some ''Design''"
    by simp
  ultimately show ?thesis
    by (rule absent_category_asymmetry)
qed

lemma length_js_slice_from_0:
  "length (js_slice (Some 0) (Some (int n)) xs) = min n (length xs)"
  by (simp add: js_slice_def clamp_index_def)

text \<open>
  C9. With a \<open>limit\<close> supplied and a category that exists, the lookup by path answers 200
  and its \<open>total\<close> is the number of courses it returns, counted after the slice: for a
  limit that parses to a natural number \<open>n\<close>, the smaller of \<open>n\<close> and the number of courses
  of the category. \<open>GET /courses\<close> with the same category and limit reports the number of
  courses of the category, counted before the slice.
\<close>

theorem category_total_after_limit:
  assumes "truthy_param limit_p" and "\<exists>c \<in> set store. category c = cat"
  shows "\<exists>b. get_category env store cat limit_p = Success 200 b
     \<and> courses_cat b
         = js_slice (Some 0) (parseInt env (the limit_p)) (filter (\<lambda>c. category c = cat) store)
     \<and> total_cat b = length (courses_cat b)
     \<and> (\<forall>n. parseInt env (the limit_p) = Some (int n)
          \<longrightarrow> total_cat b = min n (length (filter (\<lambda>c. category c = cat) store)))
     \<and> (cat \<noteq> [] \<longrightarrow>
          map_option total
            (body (get_courses env store (no_query\<lparr>category_q := Some cat, limit := limit_p\<rparr>)))
          = Some (length (filter (\<lambda>c. category c = cat) store)))"
proof -
  have "list_ex (\<lambda>c. category c = cat) store"
    using assms(2) by (simp add: list_ex_iff)
  moreover have "satisfies_criteria env (no_query\<lparr>category_q := Some cat, limit := limit_p\<rparr>)
      = (\<lambda>c. category c = cat)" if "cat \<noteq> []"
    using that by (auto simp: satisfies_criteria_def criterion_def no_query_def)
  ultimately show ?thesis
    using assms(1)
    by (simp add: get_category_def Let_def length_js_slice_from_0 get_courses_def
        length_sort_courses filter_courses_satisfies)
qed

text \<open>
  On the seeded store, category \<open>Programming\<close> with limit 1: the lookup by path reports 1,
  \<open>GET /courses\<close> reports 2.
\<close>

theorem category_total_after_limit_witness:
  "\<exists>b. get_category plain_builtins mockCourses ''Programming'' (Some ''1'') = Success 200 b
     \<and> total_cat b = 1 \<and> length (courses_cat b) = 1
     \<and> length (filter (\<lambda>c. category c = ''Programming'') mockCourses) = 2
     \<and> map_option total
          (body (get_courses plain_builtins mockCourses
             (no_query\<lparr>category_q := Some ''Programming'', limit := Some ''1''\<rparr>)))
        = Some 2"
proof -
  have given: "truthy_param (Some ''1'')"
    by code_simp
  have found: "\<exists>c \<in> set mockCourses. category c = ''Programming''"
    by code_simp
  have parsed: "parseInt plain_builtins ''1'' = Some (int 1)"
    by code_simp
  have count: "length (filter (\<lambda>c. category c = ''Programming'') mockCourses) = 2"
    by code_simp
  show ?thesis
    using category_total_after_limit [OF given found, of plain_builtins] parsed count
    by auto
qed

section \<open>Properties of the enrollment handlers\<close>

lemma findIndex_None: "findIndex p xs = None \<longleftrightarrow> \<not> (\<exists>x \<in> set xs. p x)"
  by (induction xs) auto

lemma findIndex_Some:
  "findIndex p xs = Some i \<Longrightarrow> i < length xs \<and> p (xs ! i) \<and> (\<forall>j < i. \<not> p (xs ! j))"
proof (induction xs arbitrary: i)
  case Nil
  then show ?case by simp
next
  case (Cons x xs)
  show ?case
  proof (cases "p x")
    case True
    with Cons.prems show ?thesis by simp
  next
    case False
    with Cons.prems obtain k where k: "findIndex p xs = Some k" and i: "i = Suc k"
      by auto
    from Cons.IH [OF k] False i show ?thesis
      by (auto simp: less_Suc_eq_0_disj)
  qed
qed

lemma findIndex_found:
  "\<exists>x \<in> set xs. p x \<Longrightarrow>
   \<exists>i. findIndex p xs = Some i \<and> i < length xs \<and> p (xs ! i) \<and> (\<forall>j < i. \<not> p (xs ! j))"
  using findIndex_None [of p xs] findIndex_Some [of p xs] by (cases "findIndex p xs") auto

lemma length_splice1: "i < length xs \<Longrightarrow> Suc (length (splice1 i xs)) = length xs"
  by (simp add: splice1_def)

lemma find_found: "\<exists>x \<in> set xs. p x \<Longrightarrow> \<exists>y. find p xs = Some y"
  by (cases "find p xs") (auto simp: find_None_iff)

lemma find_missing: "\<not> (\<exists>x \<in> set xs. p x) \<Longrightarrow> find p xs = None"
  by (simp add: find_None_iff)

lemma strict_eq_primitive: "is_primitive given \<Longrightarrow> strict_eq stored given = (stored = given)"
  by (simp add: strict_eq_def)

lemma strict_eq_reference: "\<not> is_primitive given \<Longrightarrow> \<not> strict_eq stored given"
  by (simp add: strict_eq_def)

text \<open>
  C2, as the handler has it. The request carries both \<open>student_id\<close> and \<open>course_id\<close> (both
  pass the handler's check for presence), and a stored enrollment matches it when both of
  its identifiers are \<open>===\<close> to those of the request. When none matches, the handler
  answers 201 with a record whose identifier is \<open>enrollment_\<close> followed by the clock's
  milliseconds, and the store grows by exactly that record at its end; when one matches,
  the handler answers 409 and the store is as before. For identifiers that are strings,
  numbers or booleans, matching is having the same pair, so a second identical request
  answers 409 and leaves the store as the first one left it. An identifier that is an
  array or an object matches nothing, so such a request is always answered 201.
\<close>

theorem enroll_once:
  assumes "truthy (student_id_r req)" and "truthy (course_id_r req)"
  shows "(\<not> (\<exists>e \<in> set store. strict_eq (student_id e) (student_id_r req)
                           \<and> strict_eq (course_id e) (course_id_r req))
          \<longrightarrow> (\<exists>b. post_enrollment clk store req = (Success 201 b, store @ [enrollment_b b])
                \<and> id_e (enrollment_b b) = ''enrollment_'' @ decimal_string (now_ms clk)
                \<and> student_id (enrollment_b b) = student_id_r req
                \<and> course_id (enrollment_b b) = course_id_r req))
       \<and> ((\<exists>e \<in> set store. strict_eq (student_id e) (student_id_r req)
                           \<and> strict_eq (course_id e) (course_id_r req))
          \<longrightarrow> (\<exists>msg. post_enrollment clk store req = (Failure 409 msg, store)))
       \<and> (is_primitive (student_id_r req) \<and> is_primitive (course_id_r req)
          \<longrightarrow> ((\<exists>e \<in> set store. strict_eq (student_id e) (student_id_r req)
                                \<and> strict_eq (course_id e) (course_id_r req))
                \<longleftrightarrow> (\<exists>e \<in> set store. student_id e = student_id_r req
                                     \<and> course_id e = course_id_r req))
            \<and> (\<exists>msg. post_enrollment clk' (snd (post_enrollment clk store req)) req
                       = (Failure 409 msg, snd (post_enrollment clk store req))))
       \<and> (\<not> is_primitive (student_id_r req) \<or> \<not> is_primitive (course_id_r req)
          \<longrightarrow> (\<exists>b. post_enrollment clk store req = (Success 201 b, store @ [enrollment_b b])))"
proof -
  let ?same = "\<lambda>e. strict_eq (student_id e) (student_id_r req)
                 \<and> strict_eq (course_id e) (course_id_r req)"
  have fresh: "\<exists>b. post_enrollment c s req = (Success 201 b, s @ [enrollment_b b])
                \<and> id_e (enrollment_b b) = ''enrollment_'' @ decimal_string (now_ms c)
                \<and> student_id (enrollment_b b) = student_id_r req
                \<and> course_id (enrollment_b b) = course_id_r req"
    if "\<not> (\<exists>e \<in> set s. ?same e)" for c s
    using assms find_missing [OF that] by (simp add: post_enrollment_def Let_def)
  have dup: "\<exists>msg. post_enrollment c s req = (Failure 409 msg, s)"
    if "\<exists>e \<in> set s. ?same e" for c s
    using assms find_found [OF that] by (auto simp: post_enrollment_def)
  have by_value: "(\<exists>e \<in> set store. ?same e)
      \<longleftrightarrow> (\<exists>e \<in> set store. student_id e = student_id_r req \<and> course_id e = course_id_r req)"
    if "is_primitive (student_id_r req) \<and> is_primitive (course_id_r req)"
    using that by (simp add: strict_eq_primitive)
  have again: "\<exists>msg. post_enrollment clk' (snd (post_enrollment clk store req)) req
                  = (Failure 409 msg, snd (post_enrollment clk store req))"
    if prim: "is_primitive (student_id_r req) \<and> is_primitive (course_id_r req)"
  proof -
    have "\<exists>e \<in> set (snd (post_enrollment clk store req)). ?same e"
    proof (cases "\<exists>e \<in> set store. ?same e")
      case True
      with dup [OF True, of clk] show ?thesis by auto
    next
      case False
      from fresh [OF False, of clk] prim show ?thesis
        by (auto simp: strict_eq_primitive)
    qed
    then show ?thesis
      by (rule dup)
  qed
  have never: "\<not> (\<exists>e \<in> set store. ?same e)"
    if "\<not> is_primitive (student_id_r req) \<or> \<not> is_primitive (course_id_r req)"
    using that by (auto simp: strict_eq_def)
  from fresh [of store clk] dup [of store clk] by_value again never show ?thesis
    by blast
qed

text \<open>
  C2 as stated fails for an identifier that is an array. On the seeded store the same
  request, with \<open>student_id\<close> the array of \<open>user_123\<close>, is answered 201 both times: after
  the second, the store holds that pair twice. Both requests read the same millisecond off
  the clock, and the two records carry the same identifier.
\<close>

theorem enroll_once_counterexample:
  "status (fst (post_enrollment sample_clock mockEnrollments
       \<lparr>student_id_r = Arr [Str ''user_123''], course_id_r = Str ''course_1'',
        tutor_id_r = Undefined\<rparr>)) = 201
   \<and> status (fst (post_enrollment sample_clock
       (snd (post_enrollment sample_clock mockEnrollments
          \<lparr>student_id_r = Arr [Str ''user_123''], course_id_r = Str ''course_1'',
           tutor_id_r = Undefined\<rparr>))
       \<lparr>student_id_r = Arr [Str ''user_123''], course_id_r = Str ''course_1'',
        tutor_id_r = Undefined\<rparr>)) = 201
   \<and> pairs (snd (post_enrollment sample_clock
       (snd (post_enrollment sample_clock mockEnrollments
          \<lparr>student_id_r = Arr [Str ''user_123''], course_id_r = Str ''course_1'',
           tutor_id_r = Undefined\<rparr>))
       \<lparr>student_id_r = Arr [Str ''user_123''], course_id_r = Str ''course_1'',
        tutor_id_r = Undefined\<rparr>))
      = [(Str ''user_123'', Str ''course_1''), (Str ''user_456'', Str ''course_2''),
         (Arr [Str ''user_123''], Str ''course_1''), (Arr [Str ''user_123''], Str ''course_1'')]
   \<and> map id_e (snd (post_enrollment sample_clock
       (snd (post_enrollment sample_clock mockEnrollments
          \<lparr>student_id_r = Arr [Str ''user_123''], course_id_r = Str ''course_1'',
           tutor_id_r = Undefined\<rparr>))
       \<lparr>student_id_r = Arr [Str ''user_123''], course_id_r = Str ''course_1'',
        tutor_id_r = Undefined\<rparr>))
      = [''enrollment_1'', ''enrollment_2'', ''enrollment_1700000000000'',
         ''enrollment_1700000000000'']"
  by (simp add: post_enrollment_def strict_eq_def mockEnrollments_def sample_clock_def
      decimal_string.simps pairs_def js_or_def Let_def)

text \<open>
  On the seeded store: \<open>user_123\<close> enrolls in \<open>course_2\<close>, and is refused \<open>course_1\<close>, where
  the pair is stored already.
\<close>

theorem enroll_once_witness:
  "(\<exists>b. post_enrollment sample_clock mockEnrollments
           \<lparr>student_id_r = Str ''user_123'', course_id_r = Str ''course_2'', tutor_id_r = Undefined\<rparr>
         = (Success 201 b, mockEnrollments @ [enrollment_b b])
       \<and> id_e (enrollment_b b) = ''enrollment_1700000000000'')
   \<and> (\<exists>msg. post_enrollment sample_clock mockEnrollments
           \<lparr>student_id_r = Str ''user_123'', course_id_r = Str ''course_1'', tutor_id_r = Undefined\<rparr>
         = (Failure 409 msg, mockEnrollments))
   \<and> (\<exists>b. post_enrollment sample_clock mockEnrollments
           \<lparr>student_id_r = Arr [Str ''user_123''], course_id_r = Str ''course_1'',
            tutor_id_r = Undefined\<rparr>
         = (Success 201 b, mockEnrollments @ [enrollment_b b]))"
proof -
  let ?new = "\<lparr>student_id_r = Str ''user_123'', course_id_r = Str ''course_2'', tutor_id_r = Undefined\<rparr>"
  let ?old = "\<lparr>student_id_r = Str ''user_123'', course_id_r = Str ''course_1'', tutor_id_r = Undefined\<rparr>"
  let ?arr = "\<lparr>student_id_r = Arr [Str ''user_123''], course_id_r = Str ''course_1'',
            tutor_id_r = Undefined\<rparr>"
  have given: "truthy (student_id_r ?new)" "truthy (course_id_r ?new)"
    "truthy (student_id_r ?old)" "truthy (course_id_r ?old)"
    "truthy (student_id_r ?arr)" "truthy (course_id_r ?arr)"
    by simp_all
  have not_yet: "\<not> (\<exists>e \<in> set mockEnrollments.
      strict_eq (student_id e) (student_id_r ?new) \<and> strict_eq (course_id e) (course_id_r ?new))"
    by code_simp
  have already: "\<exists>e \<in> set mockEnrollments.
      strict_eq (student_id e) (student_id_r ?old) \<and> strict_eq (course_id e) (course_id_r ?old)"
    by code_simp
  have reference: "\<not> is_primitive (student_id_r ?arr)"
    by simp
  have digits: "decimal_string (now_ms sample_clock) = ''1700000000000''"
    by (simp add: sample_clock_def decimal_string.simps)
  from enroll_once [OF given(1,2), of mockEnrollments sample_clock sample_clock] not_yet
  have "\<exists>b. post_enrollment sample_clock mockEnrollments ?new
         = (Success 201 b, mockEnrollments @ [enrollment_b b])
       \<and> id_e (enrollment_b b) = ''enrollment_'' @ decimal_string (now_ms sample_clock)"
    by blast
  then have first: "\<exists>b. post_enrollment sample_clock mockEnrollments ?new
         = (Success 201 b, mockEnrollments @ [enrollment_b b])
       \<and> id_e (enrollment_b b) = ''enrollment_1700000000000''"
    unfolding digits by simp
  from enroll_once [OF given(3,4), of mockEnrollments sample_clock sample_clock] already
  have second: "\<exists>msg. post_enrollment sample_clock mockEnrollments ?old
      = (Failure 409 msg, mockEnrollments)"
    by blast
  from enroll_once [OF given(5,6), of mockEnrollments sample_clock sample_clock] reference
  have "\<exists>b. post_enrollment sample_clock mockEnrollments ?arr
      = (Success 201 b, mockEnrollments @ [enrollment_b b])"
    by blast
  with first second show ?thesis
    by blast
qed

text \<open>
  C6. Deleting by identifier, and unenrolling by student and course (with a \<open>course_id\<close>
  in the body, matched by \<open>===\<close>): when no record matches, the handler answers 404 and the
  store is as before; otherwise it answers 200 and the store loses exactly one record, a
  matching one, the others keeping their order.
\<close>

theorem remove_enrollment:
  "(\<not> (\<exists>e \<in> set store. id_e e = enrollmentId)
      \<longrightarrow> status (fst (delete_enrollment store enrollmentId)) = 404
        \<and> snd (delete_enrollment store enrollmentId) = store)
   \<and> ((\<exists>e \<in> set store. id_e e = enrollmentId)
      \<longrightarrow> status (fst (delete_enrollment store enrollmentId)) = 200
        \<and> Suc (length (snd (delete_enrollment store enrollmentId))) = length store
        \<and> (\<exists>i < length store. id_e (store ! i) = enrollmentId
              \<and> snd (delete_enrollment store enrollmentId) = take i store @ drop (Suc i) store))
   \<and> (truthy course_id_body
      \<and> \<not> (\<exists>e \<in> set store. student_id e = Str studentId
                            \<and> strict_eq (course_id e) course_id_body)
      \<longrightarrow> status (fst (unenroll store studentId course_id_body)) = 404
        \<and> snd (unenroll store studentId course_id_body) = store)
   \<and> (truthy course_id_body
      \<and> (\<exists>e \<in> set store. student_id e = Str studentId
                          \<and> strict_eq (course_id e) course_id_body)
      \<longrightarrow> status (fst (unenroll store studentId course_id_body)) = 200
        \<and> Suc (length (snd (unenroll store studentId course_id_body))) = length store
        \<and> (\<exists>i < length store.
              student_id (store ! i) = Str studentId \<and> course_id (store ! i) = course_id_body
              \<and> snd (unenroll store studentId course_id_body) = take i store @ drop (Suc i) store))"
proof -
  let ?by_id = "\<lambda>e. id_e e = enrollmentId"
  let ?by_pair = "\<lambda>e. student_id e = Str studentId \<and> strict_eq (course_id e) course_id_body"
  have a: "status (fst (delete_enrollment store enrollmentId)) = 404
        \<and> snd (delete_enrollment store enrollmentId) = store"
    if "\<not> (\<exists>e \<in> set store. ?by_id e)"
    using that findIndex_None [of ?by_id store] by (simp add: delete_enrollment_def)
  have b: "status (fst (delete_enrollment store enrollmentId)) = 200
        \<and> Suc (length (snd (delete_enrollment store enrollmentId))) = length store
        \<and> (\<exists>i < length store. id_e (store ! i) = enrollmentId
              \<and> snd (delete_enrollment store enrollmentId) = take i store @ drop (Suc i) store)"
    if "\<exists>e \<in> set store. ?by_id e"
  proof -
    from findIndex_found [of store ?by_id, OF that] obtain i where
      i: "findIndex ?by_id store = Some i" "i < length store" "id_e (store ! i) = enrollmentId"
      by blast
    then have "delete_enrollment store enrollmentId
        = (Success 200 \<lparr>message_r = ''Enrollment removed successfully'',
             enrollment_id_r = enrollmentId\<rparr>, take i store @ drop (Suc i) store)"
      by (simp add: delete_enrollment_def splice1_def)
    with i show ?thesis
      by auto
  qed
  have c: "status (fst (unenroll store studentId course_id_body)) = 404
        \<and> snd (unenroll store studentId course_id_body) = store"
    if "truthy course_id_body" and "\<not> (\<exists>e \<in> set store. ?by_pair e)"
    using that findIndex_None [of ?by_pair store] by (simp add: unenroll_def)
  have d: "status (fst (unenroll store studentId course_id_body)) = 200
        \<and> Suc (length (snd (unenroll store studentId course_id_body))) = length store
        \<and> (\<exists>i < length store.
              student_id (store ! i) = Str studentId \<and> course_id (store ! i) = course_id_body
              \<and> snd (unenroll store studentId course_id_body) = take i store @ drop (Suc i) store)"
    if "truthy course_id_body" and "\<exists>e \<in> set store. ?by_pair e"
  proof -
    from findIndex_found [of store ?by_pair, OF that(2)] obtain i where
      i: "findIndex ?by_pair store = Some i" "i < length store" "?by_pair (store ! i)"
      by blast
    with that(1) have "unenroll store studentId course_id_body
        = (Success 200 \<lparr>message_u = ''Unenrolled successfully'', student_id_u = studentId,
             course_id_u = course_id_body\<rparr>, take i store @ drop (Suc i) store)"
      by (simp add: unenroll_def splice1_def)
    with i show ?thesis
      by (auto simp: strict_eq_def)
  qed
  from a b c d show ?thesis
    by blast
qed

text \<open>
  On the seeded store, for an identifier and a pair that are stored and for ones that are not.
\<close>

theorem remove_enrollment_witness:
  "status (fst (delete_enrollment mockEnrollments ''enrollment_9'')) = 404
   \<and> snd (delete_enrollment mockEnrollments ''enrollment_9'') = mockEnrollments
   \<and> status (fst (delete_enrollment mockEnrollments ''enrollment_1'')) = 200
   \<and> Suc (length (snd (delete_enrollment mockEnrollments ''enrollment_1''))) = length mockEnrollments
   \<and> status (fst (unenroll mockEnrollments ''user_123'' (Str ''course_2''))) = 404
   \<and> snd (unenroll mockEnrollments ''user_123'' (Str ''course_2'')) = mockEnrollments
   \<and> status (fst (unenroll mockEnrollments ''user_123'' (Str ''course_1''))) = 200
   \<and> Suc (length (snd (unenroll mockEnrollments ''user_123'' (Str ''course_1''))))
       = length mockEnrollments"
proof -
  have no_id: "\<not> (\<exists>e \<in> set mockEnrollments. id_e e = ''enrollment_9'')"
    by code_simp
  have an_id: "\<exists>e \<in> set mockEnrollments. id_e e = ''enrollment_1''"
    by code_simp
  have no_pair: "truthy (Str ''course_2'')
      \<and> \<not> (\<exists>e \<in> set mockEnrollments.
              student_id e = Str ''user_123'' \<and> strict_eq (course_id e) (Str ''course_2''))"
    by code_simp
  have a_pair: "truthy (Str ''course_1'')
      \<and> (\<exists>e \<in> set mockEnrollments.
            student_id e = Str ''user_123'' \<and> strict_eq (course_id e) (Str ''course_1''))"
    by code_simp
  from remove_enrollment [of mockEnrollments "''enrollment_9''" "Str ''course_2''" "''user_123''"]
    remove_enrollment [of mockEnrollments "''enrollment_1''" "Str ''course_1''" "''user_123''"]
    no_id an_id no_pair a_pair
  show ?thesis
    by blast
qed

section \<open>Properties of the profile handlers\<close>

lemma falsy_values: "\<not> truthy v \<longleftrightarrow> v \<in> {Undefined, Null, Bool False, Num 0, Str []}"
  by (cases v) auto

text \<open>
  C3. When a profile with the given id is stored, \<open>PUT /users/profile/:userId\<close> answers
  200 and replaces that one record, leaving the others as they are. In the new record each
  of \<open>First_name\<close>, \<open>Last_name\<close>, \<open>display_name\<close> and \<open>academic_level\<close> is the value of the
  body when that value is truthy, and the stored value when it is absent or falsy
  (\<open>null\<close>, \<open>false\<close>, 0, the empty string); \<open>profile_picture\<close> is the value of the body
  whenever the key is present, \<open>null\<close> included; id, email and creation time are the
  stored ones; \<open>updated_at\<close> is the time of the update. In particular a body with only
  \<open>display_name\<close> changes \<open>display_name\<close> and \<open>updated_at\<close> and nothing else.
\<close>

theorem profile_update_merges_present_fields:
  assumes "\<exists>s \<in> set students. id_s s = Str userId"
  shows "\<exists>i old new. i < length students \<and> old = students ! i \<and> id_s old = Str userId
     \<and> put_profile clk students userId req
         = (Success 200 \<lparr>student_sb = new, message_sb = ''Profile updated successfully''\<rparr>,
            students[i := new])
     \<and> First_name new = (if truthy (First_name_r req) then First_name_r req else First_name old)
     \<and> Last_name new = (if truthy (Last_name_r req) then Last_name_r req else Last_name old)
     \<and> display_name new
         = (if truthy (display_name_r req) then display_name_r req else display_name old)
     \<and> academic_level new
         = (if truthy (academic_level_r req) then academic_level_r req else academic_level old)
     \<and> profile_picture new
         = (if profile_picture_r req = Undefined then profile_picture old
            else profile_picture_r req)
     \<and> id_s new = id_s old \<and> email_s new = email_s old \<and> created_at_s new = created_at_s old
     \<and> updated_at new = Str (now_iso clk)
     \<and> (\<forall>v. \<not> truthy v \<longleftrightarrow> v \<in> {Undefined, Null, Bool False, Num 0, Str []})
     \<and> (\<forall>d. req = \<lparr>First_name_r = Undefined, Last_name_r = Undefined, display_name_r = d,
                     academic_level_r = Undefined, profile_picture_r = Undefined\<rparr>
            \<longrightarrow> new = old\<lparr>display_name := (if truthy d then d else display_name old),
                          updated_at := Str (now_iso clk)\<rparr>)"
proof -
  from findIndex_found [of students "\<lambda>s. id_s s = Str userId", OF assms] obtain i where
    i: "findIndex (\<lambda>s. id_s s = Str userId) students = Some i" "i < length students"
       "id_s (students ! i) = Str userId"
    by blast
  let ?old = "students ! i"
  let ?new = "merge_student clk ?old req"
  have "put_profile clk students userId req
      = (Success 200 \<lparr>student_sb = ?new, message_sb = ''Profile updated successfully''\<rparr>,
         students[i := ?new])"
    using i(1) by (simp add: put_profile_def Let_def)
  moreover have "First_name ?new
      = (if truthy (First_name_r req) then First_name_r req else First_name ?old)"
    by (simp add: merge_student_def)
  moreover have "Last_name ?new
      = (if truthy (Last_name_r req) then Last_name_r req else Last_name ?old)"
    by (simp add: merge_student_def)
  moreover have "display_name ?new
      = (if truthy (display_name_r req) then display_name_r req else display_name ?old)"
    by (simp add: merge_student_def)
  moreover have "academic_level ?new
      = (if truthy (academic_level_r req) then academic_level_r req else academic_level ?old)"
    by (simp add: merge_student_def)
  moreover have "profile_picture ?new
      = (if profile_picture_r req = Undefined then profile_picture ?old
         else profile_picture_r req)"
    by (simp add: merge_student_def)
  moreover have "id_s ?new = id_s ?old \<and> email_s ?new = email_s ?old
      \<and> created_at_s ?new = created_at_s ?old \<and> updated_at ?new = Str (now_iso clk)"
    by (simp add: merge_student_def)
  moreover have "\<forall>d. req = \<lparr>First_name_r = Undefined, Last_name_r = Undefined, display_name_r = d,
                     academic_level_r = Undefined, profile_picture_r = Undefined\<rparr>
            \<longrightarrow> ?new = ?old\<lparr>display_name := (if truthy d then d else display_name ?old),
                            updated_at := Str (now_iso clk)\<rparr>"
    by (auto simp: merge_student_def)
  ultimately show ?thesis
    using i(2,3) falsy_values by blast
qed


text \<open>
  On the seeded store: the profile of \<open>user_456\<close>, the second record, gets a new display name.
\<close>

theorem profile_update_merges_present_fields_witness:
  "\<exists>new. put_profile sample_clock mockStudents ''user_456''
            \<lparr>First_name_r = Undefined, Last_name_r = Undefined, display_name_r = Str ''JS'',
             academic_level_r = Undefined, profile_picture_r = Undefined\<rparr>
          = (Success 200 \<lparr>student_sb = new, message_sb = ''Profile updated successfully''\<rparr>,
             mockStudents[1 := new])
     \<and> new = (mockStudents ! 1)
          \<lparr>display_name := Str ''JS'', updated_at := Str (now_iso sample_clock)\<rparr>"
proof -
  let ?req = "\<lparr>First_name_r = Undefined, Last_name_r = Undefined, display_name_r = Str ''JS'',
             academic_level_r = Undefined, profile_picture_r = Undefined\<rparr>"
  have stored: "\<exists>s \<in> set mockStudents. id_s s = Str ''user_456''"
    by code_simp
  from profile_update_merges_present_fields [OF stored, of sample_clock ?req]
  obtain i old new where
    i: "i < length mockStudents" "old = mockStudents ! i" "id_s old = Str ''user_456''"
    and put: "put_profile sample_clock mockStudents ''user_456'' ?req
         = (Success 200 \<lparr>student_sb = new, message_sb = ''Profile updated successfully''\<rparr>,
            mockStudents[i := new])"
    and only: "new = old\<lparr>display_name := (if truthy (Str ''JS'') then Str ''JS'' else display_name old),
                          updated_at := Str (now_iso sample_clock)\<rparr>"
    by blast
  from i have "i = 1"
    by (auto simp: mockStudents_def less_Suc_eq)
  with i put only show ?thesis
    by simp
qed

text \<open>
  C10. \<open>GET /users/profile/:userId\<close> answers 404 exactly when no user has the id. When a
  user has it and no profile does, the answer is 200 with that user and \<open>student\<close> set to
  \<open>null\<close>.
\<close>

theorem profile_lookup:
  "(status (get_profile users students userId) = 404
      \<longleftrightarrow> \<not> (\<exists>u \<in> set users. id_u u = userId))
   \<and> ((\<exists>u \<in> set users. id_u u = userId) \<and> \<not> (\<exists>s \<in> set students. id_s s = Str userId)
      \<longrightarrow> (\<exists>u \<in> set users. id_u u = userId
            \<and> get_profile users students userId
                = Success 200 \<lparr>user_b = u, student_b = None\<rparr>))"
proof -
  have missing: "status (get_profile users students userId) = 404"
    if "\<not> (\<exists>u \<in> set users. id_u u = userId)"
    using find_missing [of users "\<lambda>u. id_u u = userId", OF that]
    by (simp add: get_profile_def)
  have present: "\<exists>u \<in> set users. id_u u = userId
      \<and> get_profile users students userId
          = Success 200 \<lparr>user_b = u, student_b = find (\<lambda>s. id_s s = Str userId) students\<rparr>"
    if "\<exists>u \<in> set users. id_u u = userId"
  proof -
    from find_found [of users "\<lambda>u. id_u u = userId", OF that] obtain u where
      u: "find (\<lambda>u. id_u u = userId) users = Some u"
      by blast
    then have "u \<in> set users \<and> id_u u = userId"
      by (auto simp: find_Some_iff)
    with u show ?thesis
      by (auto simp: get_profile_def)
  qed
  have not_404: "status (get_profile users students userId) \<noteq> 404"
    if "\<exists>u \<in> set users. id_u u = userId"
    using present [OF that] by auto
  have no_student: "find (\<lambda>s. id_s s = Str userId) students = None"
    if "\<not> (\<exists>s \<in> set students. id_s s = Str userId)"
    using that by (rule find_missing)
  from missing not_404 present no_student show ?thesis
    by metis
qed

text \<open>
  An unknown id among the seeded users, and a known one with no profile stored.
\<close>

theorem profile_lookup_witness:
  "status (get_profile mockUsers mockStudents ''user_999'') = 404
   \<and> status (get_profile mockUsers [] ''user_123'') \<noteq> 404
   \<and> (\<exists>u \<in> set mockUsers. id_u u = ''user_123''
        \<and> get_profile mockUsers [] ''user_123'' = Success 200 \<lparr>user_b = u, student_b = None\<rparr>)"
proof -
  have unknown: "\<not> (\<exists>u \<in> set mockUsers. id_u u = ''user_999'')"
    by code_simp
  have known: "\<exists>u \<in> set mockUsers. id_u u = ''user_123''"
    by code_simp
  have no_profile: "\<not> (\<exists>s \<in> set ([] :: student list). id_s s = Str ''user_123'')"
    by simp
  from profile_lookup [of mockUsers mockStudents "''user_999''"]
    profile_lookup [of mockUsers "[]" "''user_123''"] unknown known no_profile
  show ?thesis
    by blast
qed

text \<open>
  C8, as the handler has it. A request to \<open>POST /users/create-profile\<close> whose id is
  (\<open>===\<close>) the id of a stored profile is answered with status 400, the status of a validation error, and
  the store is as before; when the four required fields are given, the message is that the
  profile already exists. The 409 of a duplicate enrollment is not mirrored here.
\<close>

theorem duplicate_profile_is_bad_request:
  assumes "\<exists>s \<in> set students. strict_eq (id_s s) (id_r req)"
  shows "status (fst (create_profile env clk students req)) = 400
     \<and> snd (create_profile env clk students req) = students
     \<and> (truthy (id_r req) \<and> truthy (firstName req) \<and> truthy (lastName req) \<and> truthy (email_r req)
          \<longrightarrow> fst (create_profile env clk students req)
               = Failure 400 ''Student profile already exists'')"
  using find_found [of students "\<lambda>s. strict_eq (id_s s) (id_r req)", OF assms]
  by (auto simp: create_profile_def)

text \<open>
  C8 as stated fails: creating the profile of \<open>user_123\<close>, which is seeded, is not
  answered with 409.
\<close>

theorem duplicate_profile_is_bad_request_counterexample:
  "(\<exists>s \<in> set mockStudents.
      id_s s = id_r \<lparr>id_r = Str ''user_123'', firstName = Str ''John'', lastName = Str ''Doe'',
                     email_r = Str ''john.doe@example.com'', displayName = Undefined,
                     academicLevel = Undefined, profilePicture = Undefined\<rparr>)
   \<and> status (fst (create_profile plain_builtins sample_clock mockStudents
        \<lparr>id_r = Str ''user_123'', firstName = Str ''John'', lastName = Str ''Doe'',
         email_r = Str ''john.doe@example.com'', displayName = Undefined,
         academicLevel = Undefined, profilePicture = Undefined\<rparr>)) \<noteq> 409"
  by (simp add: create_profile_def mockStudents_def strict_eq_def)

text \<open>
  The same request: status 400, message and store.
\<close>

theorem duplicate_profile_is_bad_request_witness:
  "fst (create_profile plain_builtins sample_clock mockStudents
        \<lparr>id_r = Str ''user_123'', firstName = Str ''John'', lastName = Str ''Doe'',
         email_r = Str ''john.doe@example.com'', displayName = Undefined,
         academicLevel = Undefined, profilePicture = Undefined\<rparr>)
     = Failure 400 ''Student profile already exists''
   \<and> snd (create_profile plain_builtins sample_clock mockStudents
        \<lparr>id_r = Str ''user_123'', firstName = Str ''John'', lastName = Str ''Doe'',
         email_r = Str ''john.doe@example.com'', displayName = Undefined,
         academicLevel = Undefined, profilePicture = Undefined\<rparr>) = mockStudents"
proof -
  let ?req = "\<lparr>id_r = Str ''user_123'', firstName = Str ''John'', lastName = Str ''Doe'',
         email_r = Str ''john.doe@example.com'', displayName = Undefined,
         academicLevel = Undefined, profilePicture = Undefined\<rparr>"
  have stored: "\<exists>s \<in> set mockStudents. strict_eq (id_s s) (id_r ?req)"
    by code_simp
  have given: "truthy (id_r ?req) \<and> truthy (firstName ?req) \<and> truthy (lastName ?req)
      \<and> truthy (email_r ?req)"
    by simp
  from duplicate_profile_is_bad_request [OF stored, of plain_builtins sample_clock] given
  show ?thesis
    by blast
qed

end
